theory Spec2Isabelle
  imports Main "HOL-Library.Word"
begin

section \<open>Collaborators shared by both packages\<close>

text \<open>
  Both source files talk to the durable key/value store through the interface
  \<open>logical.Storage\<close> and to \<open>encoding/json\<close>. Neither is part of the files
  verified here, so the store is a value (its content and the keys on which a call
  fails) and every JSON coder is a parameter of the function that calls it.

  A Go error is a value. The constructor records where the error was made, the way
  the source tells its own \<open>fmt.Errorf\<close> values from the errors it passes on.
\<close>

type_synonym bytes = string

datatype error =
    Errorf string
  | StorageErr string
  | JSONErr string
  | ConnectErr string

record StorageEntry =
  Key :: string
  Value :: bytes

text \<open>
  Modelled from the spec: the storage abstraction of section 6, \<open>get(path) -> entry|nil\<close>
  and \<open>put(entry)\<close>, both path-atomic. \<open>getErr\<close> and \<open>putErr\<close> give the message of
  the error a call on that key returns, if it fails; a failed put writes nothing.
\<close>

record Storage =
  kv :: "string \<rightharpoonup> bytes"
  getErr :: "string \<Rightarrow> string option"
  putErr :: "string \<Rightarrow> string option"

definition Storage_Get :: "Storage \<Rightarrow> string \<Rightarrow> error + StorageEntry option" where
  "Storage_Get s k =
     (case getErr s k of
        Some msg \<Rightarrow> Inl (StorageErr msg)
      | None \<Rightarrow>
          (case kv s k of
             None \<Rightarrow> Inr None
           | Some v \<Rightarrow> Inr (Some \<lparr>Key = k, Value = v\<rparr>)))"

definition Storage_Put :: "Storage \<Rightarrow> StorageEntry \<Rightarrow> error option \<times> Storage" where
  "Storage_Put s e =
     (case putErr s (Key e) of
        Some msg \<Rightarrow> (Some (StorageErr msg), s)
      | None \<Rightarrow> (None, s\<lparr>kv := (kv s)(Key e \<mapsto> Value e)\<rparr>))"

section \<open>Package database: the connection registry\<close>

text \<open>
  The types \<open>configDB\<close>, \<open>configPostgres\<close>, \<open>configMySQL\<close> and \<open>configLease\<close> and the
  package function \<open>Connect\<close> are declared outside the files at hand.
\<close>

text \<open>
  Modelled from the spec: \<open>configDB\<close>, the declaration of which is missing, is the
  stored DatabaseConnectionConfig of section 6,
  \<open>{ "database_type": string, "config_info": raw JSON }\<close>. The source reads its fields
  \<open>DatabaseType\<close> and \<open>ConfigInfo\<close>.
\<close>

record configDB =
  DatabaseType :: string
  ConfigInfo :: bytes

text \<open>
  The two engine configurations stay type parameters, \<open>'pg\<close> for \<open>configPostgres\<close> and
  \<open>'my\<close> for \<open>configMySQL\<close>. \<open>Connect\<close> is called with either, so its second argument
  is the sum of the two.
\<close>

datatype ('pg, 'my) dbConfig = Postgres 'pg | MySQL 'my

text \<open>
  A \<open>*sql.DB\<close> is the identity of a connection object, or nil (\<open>None\<close>). What the
  code asks of the database client library is kept in order in \<open>calls\<close>: a call of
  \<open>Connect\<close> with its two arguments, a call of \<open>Close\<close> on a handle.
\<close>

type_synonym handle = nat

datatype ('pg, 'my) dbcall =
    ConnectCall "handle option" "('pg, 'my) dbConfig"
  | CloseCall handle

text \<open>
  \<open>dbs\<close> is the Go map \<open>map[string]*sql.DB\<close>: a key may be absent, or present with a
  nil value. The logger and the mutex of the struct carry no data of the registry;
  the trace lines and the \<open>fmt.Println\<close> of the source are not modelled.
\<close>

record ('pg, 'my) backend =
  dbs :: "string \<rightharpoonup> handle option"
  calls :: "('pg, 'my) dbcall list"

text \<open>\<open>b.dbs[name]\<close>: reading a Go map at an absent key gives the zero value, nil.\<close>

definition dbs_get :: "('pg, 'my) backend \<Rightarrow> string \<Rightarrow> handle option" where
  "dbs_get b name = (case dbs b name of None \<Rightarrow> None | Some p \<Rightarrow> p)"

text \<open>
  The collaborators of \<open>DBConnection\<close>: \<open>entry.DecodeJSON(&dbInfo)\<close>, the two
  \<open>json.Unmarshal\<close> calls (each gives the decoded value or an error message) and
  \<open>Connect\<close>, which gets the pointer and the configuration by value and returns an
  error message or nil.
\<close>

record ('pg, 'my) collaborators =
  decodeConfigDB :: "bytes \<Rightarrow> string + configDB"
  unmarshalPostgres :: "bytes \<Rightarrow> string + 'pg"
  unmarshalMySQL :: "bytes \<Rightarrow> string + 'my"
  connect :: "handle option \<Rightarrow> ('pg, 'my) dbConfig \<Rightarrow> string option"

text \<open>
  \<open>Connect(b.dbs[name], config)\<close>: the call is recorded; the map \<open>b.dbs\<close> is not
  among the arguments, so the call leaves it as it is.
\<close>

definition Connect ::
  "('pg, 'my) collaborators \<Rightarrow> ('pg, 'my) backend \<Rightarrow> handle option \<Rightarrow> ('pg, 'my) dbConfig
     \<Rightarrow> error option \<times> ('pg, 'my) backend" where
  "Connect env b p config =
     (map_option ConnectErr (connect env p config),
      b\<lparr>calls := calls b @ [ConnectCall p config]\<rparr>)"

text \<open>
  \<open>DBConnection\<close> returns the Go pair \<open>(*sql.DB, error)\<close> and the backend after the
  call. The result of \<open>Connect\<close> is assigned to \<open>err\<close> and the function then returns
  \<open>b.dbs[name], nil\<close>.
\<close>

definition DBConnection ::
  "('pg, 'my) collaborators \<Rightarrow> ('pg, 'my) backend \<Rightarrow> Storage \<Rightarrow> string
     \<Rightarrow> (handle option \<times> error option) \<times> ('pg, 'my) backend" where
  "DBConnection env b s name =
     (case Storage_Get s (''dbs/'' @ name) of
        Inl err \<Rightarrow> ((None, Some err), b)
      | Inr None \<Rightarrow>
          ((None, Some (Errorf ''configure the DB connection with dbs/<name> first'')), b)
      | Inr (Some entry) \<Rightarrow>
          (case decodeConfigDB env (Value entry) of
             Inl msg \<Rightarrow> ((None, Some (JSONErr msg)), b)
           | Inr dbInfo \<Rightarrow>
               if DatabaseType dbInfo = ''postgres'' then
                 (case unmarshalPostgres env (ConfigInfo dbInfo) of
                    Inl _ \<Rightarrow> ((None, Some (Errorf ''failure to unmarshal config data'')), b)
                  | Inr config \<Rightarrow>
                      (case Connect env b (dbs_get b name) (Postgres config) of
                         (err, b') \<Rightarrow> ((dbs_get b' name, None), b')))
               else if DatabaseType dbInfo = ''mysql'' then
                 (case unmarshalMySQL env (ConfigInfo dbInfo) of
                    Inl _ \<Rightarrow> ((None, Some (Errorf ''failure to unmarshal config data'')), b)
                  | Inr config \<Rightarrow>
                      (case Connect env b (dbs_get b name) (MySQL config) of
                         (err, b') \<Rightarrow> ((dbs_get b' name, None), b')))
               else ((None, Some (Errorf ''database type not recognized'')), b)))"

text \<open>
  \<open>ResetDB\<close>: close the handle if the entry is not nil, then store nil under the
  name. The error \<open>Close\<close> returns is dropped by the source.
\<close>

definition ResetDB :: "('pg, 'my) backend \<Rightarrow> string \<Rightarrow> ('pg, 'my) backend" where
  "ResetDB b name =
     (let b1 = (case dbs_get b name of
                  Some h \<Rightarrow> b\<lparr>calls := calls b @ [CloseCall h]\<rparr>
                | None \<Rightarrow> b)
      in b1\<lparr>dbs := (dbs b1)(name \<mapsto> None)\<rparr>)"

text \<open>
  \<open>Lease\<close> returns the Go pair \<open>(*configLease, error)\<close>. \<open>configLease\<close> is declared
  elsewhere, so the function is parametric in it and in its JSON decoder.
\<close>

definition Lease ::
  "(bytes \<Rightarrow> string + 'lease) \<Rightarrow> Storage \<Rightarrow> 'lease option \<times> error option" where
  "Lease decodeLease s =
     (case Storage_Get s ''config/lease'' of
        Inl err \<Rightarrow> (None, Some err)
      | Inr None \<Rightarrow> (None, None)
      | Inr (Some entry) \<Rightarrow>
          (case decodeLease (Value entry) of
             Inl msg \<Rightarrow> (None, Some (JSONErr msg))
           | Inr result \<Rightarrow> (Some result, None)))"

section \<open>Package okta: the identity-provider configuration\<close>

text \<open>
  \<open>time.Duration\<close> is an \<open>int64\<close> counting nanoseconds; its arithmetic wraps.
\<close>

type_synonym Duration = "64 word"

definition Second :: Duration where
  "Second = 1000000000"

record ConfigEntry =
  Org :: string
  Token :: string
  BaseURL :: string
  TTL :: Duration
  MaxTTL :: Duration

text \<open>\<open>&ConfigEntry{}\<close>: every field has the zero value of its type.\<close>

definition ConfigEntry_zero :: ConfigEntry where
  "ConfigEntry_zero = \<lparr>Org = [], Token = [], BaseURL = [], TTL = 0, MaxTTL = 0\<rparr>"

datatype Operation =
    CreateOperation
  | ReadOperation
  | UpdateOperation
  | DeleteOperation
  | ListOperation
  | RevokeOperation
  | RenewOperation
  | RollbackOperation
  | HelpOperation

record Request =
  Operation :: Operation
  Storage :: Storage

text \<open>
  \<open>framework.FieldData\<close> is not among the files at hand; the source uses its two
  methods only. \<open>GetOk\<close> gives the value of a field the request carries (\<open>ok\<close> is
  true) and \<open>Get\<close> gives the value or the field's default. Both are taken as they
  are, one pair for the fields the source asserts to be \<open>string\<close> and one for those
  it asserts to be \<open>int\<close>.
\<close>

record FieldData =
  GetOk_string :: "string \<Rightarrow> string option"
  Get_string :: "string \<Rightarrow> string"
  GetOk_int :: "string \<Rightarrow> int option"
  Get_int :: "string \<Rightarrow> int"

datatype fieldValue = VString string | VDuration Duration

text \<open>
  A \<open>logical.Response\<close> as the source builds it: either the \<open>Data\<close> map of a read,
  or what \<open>logical.ErrorResponse\<close> makes of a message.
\<close>

datatype Response =
    DataResponse "string \<rightharpoonup> fieldValue"
  | ErrorResponse string

text \<open>
  The library calls of the package: \<open>entry.DecodeJSON\<close> into a \<open>ConfigEntry\<close>, the JSON
  encoding inside \<open>logical.StorageEntryJSON\<close>, and \<open>url.Parse\<close>, of which the source
  keeps the error only.
\<close>

record library =
  decodeConfigEntry :: "bytes \<Rightarrow> string + ConfigEntry"
  encodeConfigEntry :: "ConfigEntry \<Rightarrow> string + bytes"
  urlParse :: "string \<Rightarrow> string option"

definition StorageEntryJSON :: "library \<Rightarrow> string \<Rightarrow> ConfigEntry \<Rightarrow> error + StorageEntry" where
  "StorageEntryJSON lib k v =
     (case encodeConfigEntry lib v of
        Inl msg \<Rightarrow> Inl (JSONErr msg)
      | Inr encodedBytes \<Rightarrow> Inr \<lparr>Key = k, Value = encodedBytes\<rparr>)"

text \<open>\<open>time.Duration(ttl.(int)) * time.Second\<close>: the conversion to \<open>int64\<close>, then a wrapping product.\<close>

definition seconds :: "int \<Rightarrow> Duration" where
  "seconds n = word_of_int n * Second"

definition Config :: "library \<Rightarrow> Storage \<Rightarrow> ConfigEntry option \<times> error option" where
  "Config lib s =
     (case Storage_Get s ''config'' of
        Inl err \<Rightarrow> (None, Some err)
      | Inr None \<Rightarrow> (None, None)
      | Inr (Some entry) \<Rightarrow>
          (case decodeConfigEntry lib (Value entry) of
             Inl msg \<Rightarrow> (None, Some (JSONErr msg))
           | Inr result \<Rightarrow> (Some result, None)))"

definition pathConfigRead :: "library \<Rightarrow> Request \<Rightarrow> Response option \<times> error option" where
  "pathConfigRead lib req =
     (case Config lib (Storage req) of
        (_, Some err) \<Rightarrow> (None, Some err)
      | (None, None) \<Rightarrow> (None, None)
      | (Some cfg, None) \<Rightarrow>
          (Some (DataResponse
             [''organization'' \<mapsto> VString (Org cfg),
              ''base_url'' \<mapsto> VString (BaseURL cfg),
              ''ttl'' \<mapsto> VDuration (TTL cfg),
              ''max_ttl'' \<mapsto> VDuration (MaxTTL cfg)]), None))"

text \<open>
  \<open>pathConfigWrite\<close> returns the Go pair \<open>(*logical.Response, error)\<close> and the storage
  of the request after the call. The base URL step either returns early with an
  error response (\<open>Inl\<close>) or goes on with the entry (\<open>Inr\<close>).
\<close>

definition pathConfigWrite ::
  "library \<Rightarrow> Request \<Rightarrow> FieldData \<Rightarrow> (Response option \<times> error option) \<times> Storage" where
  "pathConfigWrite lib req d =
     (case Config lib (Storage req) of
        (_, Some err) \<Rightarrow> ((None, Some err), Storage req)
      | (cfg0, None) \<Rightarrow>
          let cfg = (case cfg0 of None \<Rightarrow> ConfigEntry_zero | Some c \<Rightarrow> c);
              cfg = (case GetOk_string d ''organization'' of
                       Some org \<Rightarrow> cfg\<lparr>Org := org\<rparr>
                     | None \<Rightarrow>
                         if Operation req = CreateOperation
                         then cfg\<lparr>Org := Get_string d ''organization''\<rparr> else cfg);
              cfg = (case GetOk_string d ''token'' of
                       Some token \<Rightarrow> cfg\<lparr>Token := token\<rparr>
                     | None \<Rightarrow>
                         if Operation req = CreateOperation
                         then cfg\<lparr>Token := Get_string d ''token''\<rparr> else cfg)
          in
            (case (case GetOk_string d ''base_url'' of
                     Some baseURLString \<Rightarrow>
                       if length baseURLString \<noteq> 0 then
                         (case urlParse lib baseURLString of
                            Some err \<Rightarrow>
                              Inl (ErrorResponse (''Error parsing given base_url: '' @ err))
                          | None \<Rightarrow> Inr (cfg\<lparr>BaseURL := baseURLString\<rparr>))
                       else Inr cfg
                   | None \<Rightarrow>
                       if Operation req = CreateOperation
                       then Inr (cfg\<lparr>BaseURL := Get_string d ''base_url''\<rparr>) else Inr cfg)
             of
               Inl resp \<Rightarrow> ((Some resp, None), Storage req)
             | Inr cfg \<Rightarrow>
                 let cfg = (case GetOk_int d ''ttl'' of
                              Some ttl \<Rightarrow> cfg\<lparr>TTL := seconds ttl\<rparr>
                            | None \<Rightarrow>
                                if Operation req = CreateOperation
                                then cfg\<lparr>TTL := seconds (Get_int d ''ttl'')\<rparr> else cfg);
                     cfg = (case GetOk_int d ''max_ttl'' of
                              Some maxTTL \<Rightarrow> cfg\<lparr>MaxTTL := seconds maxTTL\<rparr>
                            | None \<Rightarrow>
                                if Operation req = CreateOperation
                                then cfg\<lparr>MaxTTL := seconds (Get_int d ''max_ttl'')\<rparr> else cfg)
                 in
                   (case StorageEntryJSON lib ''config'' cfg of
                      Inl err \<Rightarrow> ((None, Some err), Storage req)
                    | Inr jsonCfg \<Rightarrow>
                        (case Storage_Put (Storage req) jsonCfg of
                           (Some err, s') \<Rightarrow> ((None, Some err), s')
                         | (None, s') \<Rightarrow> ((None, None), s')))))"

definition pathConfigExistenceCheck :: "library \<Rightarrow> Request \<Rightarrow> bool \<times> error option" where
  "pathConfigExistenceCheck lib req =
     (case Config lib (Storage req) of
        (_, Some err) \<Rightarrow> (False, Some err)
      | (cfg, None) \<Rightarrow> (cfg \<noteq> None, None))"

section \<open>Example inputs\<close>

text \<open>
  Concrete collaborators and stores, used to run the functions above. The JSON coders
  of the examples know a few byte strings and reject every other one.
\<close>

definition example_collaborators :: "(string, string) collaborators" where
  "example_collaborators =
     \<lparr>decodeConfigDB = (\<lambda>bs.
        if bs = ''pg-entry''
        then Inr \<lparr>DatabaseType = ''postgres'', ConfigInfo = ''pg-config''\<rparr>
        else if bs = ''pg-entry-bad-payload''
        then Inr \<lparr>DatabaseType = ''postgres'', ConfigInfo = ''17''\<rparr>
        else if bs = ''my-entry''
        then Inr \<lparr>DatabaseType = ''mysql'', ConfigInfo = ''my-config''\<rparr>
        else if bs = ''oracle-entry''
        then Inr \<lparr>DatabaseType = ''oracle'', ConfigInfo = ''oracle-config''\<rparr>
        else Inl ''unexpected end of JSON input''),
      unmarshalPostgres = (\<lambda>bs.
        if bs = ''pg-config'' then Inr ''postgresql://vault@db1/app''
        else Inl ''cannot unmarshal number into Go value''),
      unmarshalMySQL = (\<lambda>bs.
        if bs = ''my-config'' then Inr ''vault@tcp(db2)/app''
        else Inl ''cannot unmarshal number into Go value''),
      connect = (\<lambda>p config. None)\<rparr>"

definition connection_refused :: "(string, string) collaborators" where
  "connection_refused =
     example_collaborators\<lparr>connect := (\<lambda>p config. Some ''connection refused'')\<rparr>"

definition store_of :: "(string \<rightharpoonup> bytes) \<Rightarrow> Storage" where
  "store_of m = \<lparr>kv = m, getErr = (\<lambda>k. None), putErr = (\<lambda>k. None)\<rparr>"

definition unreadable_store_of :: "(string \<rightharpoonup> bytes) \<Rightarrow> Storage" where
  "unreadable_store_of m =
     \<lparr>kv = m, getErr = (\<lambda>k. Some ''storage sealed''), putErr = (\<lambda>k. None)\<rparr>"

definition fresh_backend :: "(string, string) backend" where
  "fresh_backend = \<lparr>dbs = Map.empty, calls = []\<rparr>"

definition backend_with_handle :: "(string, string) backend" where
  "backend_with_handle = \<lparr>dbs = [''pg'' \<mapsto> Some 7], calls = []\<rparr>"

definition example_decodeLease :: "bytes \<Rightarrow> string + (int \<times> int)" where
  "example_decodeLease bs =
     (if bs = ''lease-3600-7200'' then Inr (3600, 7200)
      else if bs = ''lease-0-0'' then Inr (0, 0)
      else Inl ''unexpected end of JSON input'')"

definition example_entry :: ConfigEntry where
  "example_entry =
     \<lparr>Org = ''acme'', Token = ''t0'', BaseURL = ''https://acme.example'',
      TTL = seconds 60, MaxTTL = seconds 120\<rparr>"

definition example_library :: library where
  "example_library =
     \<lparr>decodeConfigEntry = (\<lambda>bs.
        if bs = ''acme t0 https://acme.example'' then Inr example_entry
        else if bs = ''acme t1 https://acme.example'' then Inr (example_entry\<lparr>Token := ''t1''\<rparr>)
        else Inl ''unexpected end of JSON input''),
      encodeConfigEntry = (\<lambda>c. Inr (Org c @ '' '' @ Token c @ '' '' @ BaseURL c)),
      urlParse = (\<lambda>u. if u = '':bad'' then Some ''missing protocol scheme'' else None)\<rparr>"

definition request :: "Operation \<Rightarrow> Storage \<Rightarrow> Request" where
  "request op s = \<lparr>Operation = op, Storage = s\<rparr>"

text \<open>
  Request data that carries the given string fields and no duration field; \<open>Get\<close> of
  a field the request does not carry gives the zero value, as for a schema that
  declares no default.
\<close>

definition fields_of :: "(string \<rightharpoonup> string) \<Rightarrow> FieldData" where
  "fields_of m =
     \<lparr>GetOk_string = m,
      Get_string = (\<lambda>k. case m k of None \<Rightarrow> [] | Some v \<Rightarrow> v),
      GetOk_int = (\<lambda>k. None),
      Get_int = (\<lambda>k. 0)\<rparr>"

section \<open>The registry: forced reset\<close>

text \<open>
  Claim C6. For every name, \<open>ResetDB\<close> closes the handle stored for the name exactly
  once if one is present and closes nothing if the entry is absent or nil; afterwards
  the entry of the name holds no handle and the other entries are as before; and a
  second \<open>ResetDB\<close> of the same name right after changes nothing, so it performs
  no further close.
\<close>

theorem ResetDB_closes_once_and_is_idempotent:
  "calls (ResetDB b name) =
     calls b @ (case dbs_get b name of None \<Rightarrow> [] | Some h \<Rightarrow> [CloseCall h])
   \<and> dbs (ResetDB b name) = (dbs b)(name \<mapsto> None)
   \<and> dbs_get (ResetDB b name) name = None
   \<and> ResetDB (ResetDB b name) name = ResetDB b name"
  by (simp add: ResetDB_def dbs_get_def Let_def split: option.splits)

section \<open>The registry: acquiring a connection\<close>

lemmas registry_defs =
  DBConnection_def Storage_Get_def Connect_def dbs_get_def

lemmas registry_examples =
  example_collaborators_def connection_refused_def store_of_def unreadable_store_of_def
  fresh_backend_def backend_with_handle_def

text \<open>
  \<open>DBConnection\<close> never writes the map: whatever the store holds and whatever
  \<open>Connect\<close> does, the entries after the call are the entries before it, and the
  handle returned is nil or the entry the name had before the call.
\<close>

lemma DBConnection_keeps_dbs: "dbs (snd (DBConnection env b s name)) = dbs b"
  by (simp add: DBConnection_def Connect_def split: sum.splits option.splits)

lemma DBConnection_returns_old_entry:
  "fst (fst (DBConnection env b s name)) = None
   \<or> fst (fst (DBConnection env b s name)) = dbs_get b name"
  by (auto simp add: registry_defs split: sum.splits option.splits)

text \<open>
  Two calls for the same name, one after the other, on a new registry: each reads
  and decodes the configuration and each calls \<open>Connect\<close>, both times with the nil
  pointer.
\<close>

lemma DBConnection_twice_connects_twice:
  "snd (DBConnection example_collaborators
          (snd (DBConnection example_collaborators fresh_backend
                  (store_of [''dbs/pg'' \<mapsto> ''pg-entry'']) ''pg''))
          (store_of [''dbs/pg'' \<mapsto> ''pg-entry'']) ''pg'')
     = fresh_backend
         \<lparr>calls := [ConnectCall None (Postgres ''postgresql://vault@db1/app''),
                    ConnectCall None (Postgres ''postgresql://vault@db1/app'')]\<rparr>"
  by (simp add: registry_defs registry_examples)

text \<open>
  Claim C1 says that for a name with no handle yet, \<open>DBConnection\<close> opens a connection,
  stores the handle under the name and returns that non-nil handle. The code run on
  such an input: the store holds a well-formed postgres configuration under
  \<open>dbs/pg\<close>, the registry is new, and \<open>Connect\<close> may behave in any way \<open>c\<close>. The
  call hands \<open>Connect\<close> the nil pointer and the decoded configuration, then returns
  the entry of the map, which is still nil, with a nil error; the map is as empty as
  before.
\<close>

theorem DBConnection_fresh_name_returns_nil_handle:
  "DBConnection (example_collaborators\<lparr>connect := c\<rparr>) fresh_backend
       (store_of [''dbs/pg'' \<mapsto> ''pg-entry'']) ''pg''
     = ((None, None),
        fresh_backend\<lparr>calls := [ConnectCall None (Postgres ''postgresql://vault@db1/app'')]\<rparr>)
   \<and> dbs fresh_backend ''pg'' = None"
  by (simp add: registry_defs registry_examples)

text \<open>
  Claim C2 says that when the connection-open step fails the call returns an error
  and the cached handle is invalidated. The code run with a \<open>Connect\<close> that fails
  with "connection refused" on a well-formed postgres configuration: on a new
  registry the call returns a nil handle and a nil error; on a registry that holds
  handle 7 under the name it returns handle 7 and a nil error, closes nothing and
  keeps the entry.
\<close>

theorem DBConnection_drops_connect_error:
  "connect connection_refused None (Postgres ''postgresql://vault@db1/app'')
     = Some ''connection refused''
   \<and> DBConnection connection_refused fresh_backend
        (store_of [''dbs/pg'' \<mapsto> ''pg-entry'']) ''pg''
     = ((None, None),
        fresh_backend\<lparr>calls := [ConnectCall None (Postgres ''postgresql://vault@db1/app'')]\<rparr>)
   \<and> DBConnection connection_refused backend_with_handle
        (store_of [''dbs/pg'' \<mapsto> ''pg-entry'']) ''pg''
     = ((Some 7, None),
        backend_with_handle
          \<lparr>calls := [ConnectCall (Some 7) (Postgres ''postgresql://vault@db1/app'')]\<rparr>)"
  by (simp add: registry_defs registry_examples)


text \<open>
  Claim C4 as stated fails: the three listed cases are not the only ones in which
  the call fails. Here an entry is stored under \<open>dbs/pg\<close>, its type is postgres and
  its payload unmarshals, so none of the three cases holds; the store fails the read
  and the call returns that error and no handle.
\<close>

theorem DBConnection_fails_on_storage_error:
  "kv (unreadable_store_of [''dbs/pg'' \<mapsto> ''pg-entry'']) ''dbs/pg'' = Some ''pg-entry''
   \<and> decodeConfigDB example_collaborators ''pg-entry''
       = Inr \<lparr>DatabaseType = ''postgres'', ConfigInfo = ''pg-config''\<rparr>
   \<and> unmarshalPostgres example_collaborators ''pg-config''
       = Inr ''postgresql://vault@db1/app''
   \<and> fst (DBConnection example_collaborators fresh_backend
            (unreadable_store_of [''dbs/pg'' \<mapsto> ''pg-entry'']) ''pg'')
       = (None, Some (StorageErr ''storage sealed''))"
  by (simp add: registry_defs registry_examples)

text \<open>
  Claim C4, amended. Provided the connection-open step does not fail, the call
  returns an error in exactly five cases, and in each with an error of its own: the
  error of the store when the read of \<open>dbs/<name>\<close> fails; "configure the DB
  connection" exactly when the read succeeds and no entry is stored; the error of
  the JSON decoder when the stored entry does not decode; "database type not
  recognized" exactly when the entry decodes and its type is neither postgres nor
  mysql; "failure to unmarshal config data" exactly when the type is postgres or
  mysql and the payload does not unmarshal for that type. In every other case the
  call returns a nil error. Whenever the call returns an error it returns no handle
  and leaves the registry as it was. What the call returns when the connection-open
  step fails is not part of the statement.
\<close>

theorem DBConnection_errors:
  "(snd (fst (DBConnection env b s name)) = Some (StorageErr msg)
      \<longleftrightarrow> Storage_Get s (''dbs/'' @ name) = Inl (StorageErr msg))
   \<and> (snd (fst (DBConnection env b s name))
         = Some (Errorf ''configure the DB connection with dbs/<name> first'')
      \<longleftrightarrow> Storage_Get s (''dbs/'' @ name) = Inr None)
   \<and> (snd (fst (DBConnection env b s name)) = Some (JSONErr msg)
      \<longleftrightarrow> (\<exists>entry. Storage_Get s (''dbs/'' @ name) = Inr (Some entry)
             \<and> decodeConfigDB env (Value entry) = Inl msg))
   \<and> (snd (fst (DBConnection env b s name)) = Some (Errorf ''database type not recognized'')
      \<longleftrightarrow> (\<exists>entry dbInfo. Storage_Get s (''dbs/'' @ name) = Inr (Some entry)
             \<and> decodeConfigDB env (Value entry) = Inr dbInfo
             \<and> DatabaseType dbInfo \<noteq> ''postgres'' \<and> DatabaseType dbInfo \<noteq> ''mysql''))
   \<and> (snd (fst (DBConnection env b s name)) = Some (Errorf ''failure to unmarshal config data'')
      \<longleftrightarrow> (\<exists>entry dbInfo. Storage_Get s (''dbs/'' @ name) = Inr (Some entry)
             \<and> decodeConfigDB env (Value entry) = Inr dbInfo
             \<and> (DatabaseType dbInfo = ''postgres''
                  \<and> isl (unmarshalPostgres env (ConfigInfo dbInfo))
                \<or> DatabaseType dbInfo = ''mysql''
                  \<and> isl (unmarshalMySQL env (ConfigInfo dbInfo)))))
   \<and> (snd (fst (DBConnection env b s name)) = None
      \<or> fst (fst (DBConnection env b s name)) = None \<and> snd (DBConnection env b s name) = b)
   \<and> ((\<forall>p config. connect env p config = None) \<longrightarrow>
        (snd (fst (DBConnection env b s name)) \<noteq> None
         \<longleftrightarrow> (\<exists>m. snd (fst (DBConnection env b s name)) = Some (StorageErr m))
           \<or> snd (fst (DBConnection env b s name))
                = Some (Errorf ''configure the DB connection with dbs/<name> first'')
           \<or> (\<exists>m. snd (fst (DBConnection env b s name)) = Some (JSONErr m))
           \<or> snd (fst (DBConnection env b s name))
                = Some (Errorf ''database type not recognized'')
           \<or> snd (fst (DBConnection env b s name))
                = Some (Errorf ''failure to unmarshal config data''))
      \<and> (snd (fst (DBConnection env b s name)) = None
         \<longleftrightarrow> (\<exists>entry dbInfo. Storage_Get s (''dbs/'' @ name) = Inr (Some entry)
               \<and> decodeConfigDB env (Value entry) = Inr dbInfo
               \<and> (DatabaseType dbInfo = ''postgres''
                    \<and> \<not> isl (unmarshalPostgres env (ConfigInfo dbInfo))
                  \<or> DatabaseType dbInfo = ''mysql''
                    \<and> \<not> isl (unmarshalMySQL env (ConfigInfo dbInfo))))))"
  by (auto simp add: DBConnection_def Connect_def Storage_Get_def
      split: sum.splits option.splits)

theorem DBConnection_errors_witness:
  "(\<forall>p config. connect example_collaborators p config = None)
   \<and> snd (fst (DBConnection example_collaborators fresh_backend
         (store_of [''dbs/pg'' \<mapsto> ''pg-entry'']) ''pg''))
     = None
   \<and> snd (fst (DBConnection example_collaborators fresh_backend
         (store_of [''dbs/ora'' \<mapsto> ''oracle-entry'']) ''ora''))
     = Some (Errorf ''database type not recognized'')
   \<and> snd (fst (DBConnection example_collaborators fresh_backend
         (store_of [''dbs/ora'' \<mapsto> ''oracle-entry'']) ''pg''))
     = Some (Errorf ''configure the DB connection with dbs/<name> first'')
   \<and> snd (fst (DBConnection example_collaborators fresh_backend
         (store_of [''dbs/pg'' \<mapsto> ''pg-entry-bad-payload'']) ''pg''))
     = Some (Errorf ''failure to unmarshal config data'')
   \<and> snd (fst (DBConnection example_collaborators fresh_backend
         (store_of [''dbs/pg'' \<mapsto> ''{'']) ''pg''))
     = Some (JSONErr ''unexpected end of JSON input'')
   \<and> snd (fst (DBConnection example_collaborators fresh_backend
         (unreadable_store_of [''dbs/pg'' \<mapsto> ''pg-entry'']) ''pg''))
     = Some (StorageErr ''storage sealed'')"
proof -
  have guard: "\<forall>p config. connect example_collaborators p config = None"
    by (simp add: example_collaborators_def)
  have usable:
    "\<exists>entry dbInfo.
        Storage_Get (store_of [''dbs/pg'' \<mapsto> ''pg-entry'']) (''dbs/'' @ ''pg'')
          = Inr (Some entry)
      \<and> decodeConfigDB example_collaborators (Value entry) = Inr dbInfo
      \<and> (DatabaseType dbInfo = ''postgres''
           \<and> \<not> isl (unmarshalPostgres example_collaborators (ConfigInfo dbInfo))
         \<or> DatabaseType dbInfo = ''mysql''
           \<and> \<not> isl (unmarshalMySQL example_collaborators (ConfigInfo dbInfo)))"
    by (simp add: Storage_Get_def store_of_def example_collaborators_def)
  note ok = DBConnection_errors [of example_collaborators fresh_backend
      "store_of [''dbs/pg'' \<mapsto> ''pg-entry'']" "''pg''" "''m''"]
  from ok guard usable have success:
    "snd (fst (DBConnection example_collaborators fresh_backend
         (store_of [''dbs/pg'' \<mapsto> ''pg-entry'']) ''pg'')) = None"
    by (elim conjE impE) simp_all
  show ?thesis
    using guard success
      DBConnection_errors [of example_collaborators fresh_backend
        "store_of [''dbs/ora'' \<mapsto> ''oracle-entry'']" "''ora''"]
      DBConnection_errors [of example_collaborators fresh_backend
        "store_of [''dbs/ora'' \<mapsto> ''oracle-entry'']" "''pg''"]
      DBConnection_errors [of example_collaborators fresh_backend
        "store_of [''dbs/pg'' \<mapsto> ''pg-entry-bad-payload'']" "''pg''"]
      DBConnection_errors [of example_collaborators fresh_backend
        "store_of [''dbs/pg'' \<mapsto> ''{'']" "''pg''" "''unexpected end of JSON input''"]
      DBConnection_errors [of example_collaborators fresh_backend
        "unreadable_store_of [''dbs/pg'' \<mapsto> ''pg-entry'']" "''pg''" "''storage sealed''"]
    by (simp add: registry_defs registry_examples)
qed

text \<open>
  Claim C7. \<open>Lease\<close> returns "unset", a nil configuration with a nil error, when no
  entry is stored under \<open>config/lease\<close>; it returns the decoded configuration when
  one is stored and decodes; it returns an error exactly when the read of the store
  or the JSON decoding fails; and "unset" is returned only when no entry is stored,
  so a stored configuration, the zero-valued one included, is never reported as
  unset.
\<close>

theorem Lease_unset_value_or_error:
  "(Storage_Get s ''config/lease'' = Inr None \<longrightarrow> Lease dec s = (None, None))
   \<and> (\<forall>entry c. Storage_Get s ''config/lease'' = Inr (Some entry) \<and> dec (Value entry) = Inr c
          \<longrightarrow> Lease dec s = (Some c, None))
   \<and> (snd (Lease dec s) \<noteq> None
        \<longleftrightarrow> isl (Storage_Get s ''config/lease'')
          \<or> (\<exists>entry. Storage_Get s ''config/lease'' = Inr (Some entry)
                \<and> isl (dec (Value entry))))
   \<and> (Lease dec s = (None, None) \<longleftrightarrow> Storage_Get s ''config/lease'' = Inr None)"
  by (auto simp add: Lease_def split: sum.splits option.splits)

theorem Lease_unset_value_or_error_witness:
  "Lease example_decodeLease (store_of Map.empty) = (None, None)
   \<and> Lease example_decodeLease (store_of [''config/lease'' \<mapsto> ''lease-0-0''])
       = (Some (0, 0), None)
   \<and> Lease example_decodeLease (store_of [''config/lease'' \<mapsto> ''lease-3600-7200''])
       = (Some (3600, 7200), None)
   \<and> snd (Lease example_decodeLease (store_of [''config/lease'' \<mapsto> ''{''])) \<noteq> None
   \<and> snd (Lease example_decodeLease (unreadable_store_of Map.empty)) \<noteq> None"
  using
    Lease_unset_value_or_error [of "store_of Map.empty" example_decodeLease]
    Lease_unset_value_or_error [of "store_of [''config/lease'' \<mapsto> ''lease-0-0'']"
      example_decodeLease]
    Lease_unset_value_or_error [of "store_of [''config/lease'' \<mapsto> ''lease-3600-7200'']"
      example_decodeLease]
    Lease_unset_value_or_error [of "store_of [''config/lease'' \<mapsto> ''{'']"
      example_decodeLease]
    Lease_unset_value_or_error [of "unreadable_store_of Map.empty" example_decodeLease]
  by (simp add: Lease_def Storage_Get_def store_of_def unreadable_store_of_def
      example_decodeLease_def)

section \<open>The identity-provider configuration\<close>

lemmas okta_examples =
  example_library_def example_entry_def store_of_def unreadable_store_of_def request_def
  fields_of_def

text \<open>
  Claim C9. Whenever a configuration is stored and read, the response of
  \<open>pathConfigRead\<close> is a data response with the four keys \<open>organization\<close>,
  \<open>base_url\<close>, \<open>ttl\<close> and \<open>max_ttl\<close> and no other key, holding the fields \<open>Org\<close>,
  \<open>BaseURL\<close>, \<open>TTL\<close> and \<open>MaxTTL\<close>; and two stored configurations that differ in
  the \<open>Token\<close> field only give the same response.
\<close>

theorem pathConfigRead_omits_token:
  "(Config lib (Storage req) = (Some cfg, None) \<longrightarrow>
      (\<exists>data. pathConfigRead lib req = (Some (DataResponse data), None)
         \<and> dom data = {''organization'', ''base_url'', ''ttl'', ''max_ttl''}
         \<and> data ''organization'' = Some (VString (Org cfg))
         \<and> data ''base_url'' = Some (VString (BaseURL cfg))
         \<and> data ''ttl'' = Some (VDuration (TTL cfg))
         \<and> data ''max_ttl'' = Some (VDuration (MaxTTL cfg))))
   \<and> (Config lib1 (Storage req1) = (Some cfg1, None)
        \<and> Config lib2 (Storage req2) = (Some (cfg1\<lparr>Token := t\<rparr>), None)
      \<longrightarrow> pathConfigRead lib1 req1 = pathConfigRead lib2 req2)"
  by (auto simp add: pathConfigRead_def)

theorem pathConfigRead_omits_token_witness:
  "Config example_library (store_of [''config'' \<mapsto> ''acme t0 https://acme.example''])
     = (Some example_entry, None)
   \<and> Config example_library (store_of [''config'' \<mapsto> ''acme t1 https://acme.example''])
     = (Some (example_entry\<lparr>Token := ''t1''\<rparr>), None)
   \<and> pathConfigRead example_library
        (request ReadOperation (store_of [''config'' \<mapsto> ''acme t0 https://acme.example'']))
     = pathConfigRead example_library
        (request ReadOperation (store_of [''config'' \<mapsto> ''acme t1 https://acme.example'']))
   \<and> (\<exists>data. pathConfigRead example_library
        (request ReadOperation (store_of [''config'' \<mapsto> ''acme t0 https://acme.example'']))
          = (Some (DataResponse data), None)
        \<and> dom data = {''organization'', ''base_url'', ''ttl'', ''max_ttl''})"
proof -
  have r0: "Config example_library
       (Storage (request ReadOperation (store_of [''config'' \<mapsto> ''acme t0 https://acme.example''])))
     = (Some example_entry, None)"
    by (simp add: Config_def Storage_Get_def okta_examples)
  have r1: "Config example_library
       (Storage (request ReadOperation (store_of [''config'' \<mapsto> ''acme t1 https://acme.example''])))
     = (Some (example_entry\<lparr>Token := ''t1''\<rparr>), None)"
    by (simp add: Config_def Storage_Get_def okta_examples)
  note inst = pathConfigRead_omits_token [of example_library
      "request ReadOperation (store_of [''config'' \<mapsto> ''acme t0 https://acme.example''])"
      example_entry example_library
      "request ReadOperation (store_of [''config'' \<mapsto> ''acme t0 https://acme.example''])"
      example_entry example_library
      "request ReadOperation (store_of [''config'' \<mapsto> ''acme t1 https://acme.example''])"
      "''t1''"]
  note shape = inst [THEN conjunct1, THEN mp, OF r0]
  note same = inst [THEN conjunct2, THEN mp, OF conjI [OF r0 r1]]
  from shape obtain data where
    "pathConfigRead example_library
        (request ReadOperation (store_of [''config'' \<mapsto> ''acme t0 https://acme.example'']))
       = (Some (DataResponse data), None)"
    and "dom data = {''organization'', ''base_url'', ''ttl'', ''max_ttl''}"
    by (elim exE conjE)
  then have ex: "\<exists>data. pathConfigRead example_library
        (request ReadOperation (store_of [''config'' \<mapsto> ''acme t0 https://acme.example'']))
          = (Some (DataResponse data), None)
        \<and> dom data = {''organization'', ''base_url'', ''ttl'', ''max_ttl''}"
    by (intro exI conjI)
  have st: "\<And>op s. Storage (request op s) = s"
    by (simp add: request_def)
  from r0 r1 same ex show ?thesis
    unfolding st by (intro conjI)
qed

text \<open>
  Claim C10. When the write reaches the parse of the base URL, that is the stored
  configuration was read without error and the request carries a non-empty
  \<open>base_url\<close>, and \<open>url.Parse\<close> fails on it, the call returns an error response that
  quotes the parse error, returns a nil error, and the storage after the call is the
  storage before it.
\<close>

theorem pathConfigWrite_bad_base_url_writes_nothing:
  assumes "Config lib (Storage req) = (cfg0, None)"
      and "GetOk_string d ''base_url'' = Some u" and "u \<noteq> []"
      and "urlParse lib u = Some e"
  shows "pathConfigWrite lib req d
           = ((Some (ErrorResponse (''Error parsing given base_url: '' @ e)), None), Storage req)"
  using assms by (simp add: pathConfigWrite_def Let_def)

theorem pathConfigWrite_bad_base_url_writes_nothing_witness:
  "pathConfigWrite example_library
      (request UpdateOperation (store_of [''config'' \<mapsto> ''acme t0 https://acme.example'']))
      (fields_of [''token'' \<mapsto> ''t1'', ''base_url'' \<mapsto> '':bad''])
     = ((Some (ErrorResponse ''Error parsing given base_url: missing protocol scheme''), None),
        store_of [''config'' \<mapsto> ''acme t0 https://acme.example''])"
proof -
  have r0: "Config example_library
       (Storage (request UpdateOperation (store_of [''config'' \<mapsto> ''acme t0 https://acme.example''])))
     = (Some example_entry, None)"
    by (simp add: Config_def Storage_Get_def okta_examples)
  have g: "GetOk_string (fields_of [''token'' \<mapsto> ''t1'', ''base_url'' \<mapsto> '':bad'']) ''base_url''
       = Some '':bad''"
    by (simp add: fields_of_def)
  have ne: "'':bad'' \<noteq> []" by simp
  have p: "urlParse example_library '':bad'' = Some ''missing protocol scheme''"
    by (simp add: example_library_def)
  from pathConfigWrite_bad_base_url_writes_nothing [OF r0 g ne p] show ?thesis
    by (simp add: request_def)
qed

text \<open>
  Claim C8. Let \<open>old\<close> be the stored entry, or the zero entry when none is stored.
  Whenever the write succeeds, what it has put under \<open>config\<close> is the encoding of one
  record \<open>cfg\<close>, and of that record: on an update every field the request does not
  carry is the field of \<open>old\<close>; on a create every field the request does not carry is
  what \<open>Get\<close> gives for it, the default of the field (for the two durations, that
  many seconds); and on either operation a field the request carries is taken from
  the request, an empty \<open>base_url\<close> leaving the base URL as it was.
\<close>

theorem pathConfigWrite_merges_by_operation:
  assumes read: "Config lib (Storage req) = (cfg0, None)"
      and old: "old = (case cfg0 of None \<Rightarrow> ConfigEntry_zero | Some c \<Rightarrow> c)"
      and ok: "pathConfigWrite lib req d = ((None, None), s')"
  shows "\<exists>cfg bs. encodeConfigEntry lib cfg = Inr bs
      \<and> s' = (Storage req)\<lparr>kv := (kv (Storage req))(''config'' \<mapsto> bs)\<rparr>
      \<and> (Operation req = UpdateOperation \<longrightarrow>
            (GetOk_string d ''organization'' = None \<longrightarrow> Org cfg = Org old)
          \<and> (GetOk_string d ''token'' = None \<longrightarrow> Token cfg = Token old)
          \<and> (GetOk_string d ''base_url'' = None \<longrightarrow> BaseURL cfg = BaseURL old)
          \<and> (GetOk_int d ''ttl'' = None \<longrightarrow> TTL cfg = TTL old)
          \<and> (GetOk_int d ''max_ttl'' = None \<longrightarrow> MaxTTL cfg = MaxTTL old))
      \<and> (Operation req = CreateOperation \<longrightarrow>
            (GetOk_string d ''organization'' = None \<longrightarrow> Org cfg = Get_string d ''organization'')
          \<and> (GetOk_string d ''token'' = None \<longrightarrow> Token cfg = Get_string d ''token'')
          \<and> (GetOk_string d ''base_url'' = None \<longrightarrow> BaseURL cfg = Get_string d ''base_url'')
          \<and> (GetOk_int d ''ttl'' = None \<longrightarrow> TTL cfg = seconds (Get_int d ''ttl''))
          \<and> (GetOk_int d ''max_ttl'' = None \<longrightarrow> MaxTTL cfg = seconds (Get_int d ''max_ttl'')))
      \<and> (\<forall>v. GetOk_string d ''organization'' = Some v \<longrightarrow> Org cfg = v)
      \<and> (\<forall>v. GetOk_string d ''token'' = Some v \<longrightarrow> Token cfg = v)
      \<and> (\<forall>v. GetOk_string d ''base_url'' = Some v \<longrightarrow>
             BaseURL cfg = (if v = [] then BaseURL old else v))
      \<and> (\<forall>v. GetOk_int d ''ttl'' = Some v \<longrightarrow> TTL cfg = seconds v)
      \<and> (\<forall>v. GetOk_int d ''max_ttl'' = Some v \<longrightarrow> MaxTTL cfg = seconds v)"
proof -
  define c1 where "c1 = (case GetOk_string d ''organization'' of
                       Some org \<Rightarrow> old\<lparr>Org := org\<rparr>
                     | None \<Rightarrow>
                         if Operation req = CreateOperation
                         then old\<lparr>Org := Get_string d ''organization''\<rparr> else old)"
  define c2 where "c2 = (case GetOk_string d ''token'' of
                       Some token \<Rightarrow> c1\<lparr>Token := token\<rparr>
                     | None \<Rightarrow>
                         if Operation req = CreateOperation
                         then c1\<lparr>Token := Get_string d ''token''\<rparr> else c1)"
  define step3 where "step3 = (case GetOk_string d ''base_url'' of
                     Some baseURLString \<Rightarrow>
                       if length baseURLString \<noteq> 0 then
                         (case urlParse lib baseURLString of
                            Some err \<Rightarrow>
                              Inl (ErrorResponse (''Error parsing given base_url: '' @ err))
                          | None \<Rightarrow> Inr (c2\<lparr>BaseURL := baseURLString\<rparr>))
                       else Inr c2
                   | None \<Rightarrow>
                       if Operation req = CreateOperation
                       then Inr (c2\<lparr>BaseURL := Get_string d ''base_url''\<rparr>) else Inr c2)"
  define c4 where "c4 = (\<lambda>c3::ConfigEntry. case GetOk_int d ''ttl'' of
                              Some ttl \<Rightarrow> c3\<lparr>TTL := seconds ttl\<rparr>
                            | None \<Rightarrow>
                                if Operation req = CreateOperation
                                then c3\<lparr>TTL := seconds (Get_int d ''ttl'')\<rparr> else c3)"
  define c5 where "c5 = (\<lambda>c3::ConfigEntry. case GetOk_int d ''max_ttl'' of
                              Some maxTTL \<Rightarrow> (c4 c3)\<lparr>MaxTTL := seconds maxTTL\<rparr>
                            | None \<Rightarrow>
                                if Operation req = CreateOperation
                                then (c4 c3)\<lparr>MaxTTL := seconds (Get_int d ''max_ttl'')\<rparr> else c4 c3)"
  have unfolded: "pathConfigWrite lib req d =
      (case step3 of
         Inl resp \<Rightarrow> ((Some resp, None), Storage req)
       | Inr c3 \<Rightarrow>
           (case StorageEntryJSON lib ''config'' (c5 c3) of
              Inl err \<Rightarrow> ((None, Some err), Storage req)
            | Inr jsonCfg \<Rightarrow>
                (case Storage_Put (Storage req) jsonCfg of
                   (Some err, s') \<Rightarrow> ((None, Some err), s')
                 | (None, s') \<Rightarrow> ((None, None), s'))))"
    unfolding pathConfigWrite_def read Let_def old c1_def c2_def step3_def c4_def c5_def
    by (simp only: prod.case option.case)
  from ok unfolded obtain c3 where s3: "step3 = Inr c3"
    by (cases step3) auto
  from ok unfolded s3 obtain bs where enc: "encodeConfigEntry lib (c5 c3) = Inr bs"
    and s': "s' = (Storage req)\<lparr>kv := (kv (Storage req))(''config'' \<mapsto> bs)\<rparr>"
    by (auto simp add: StorageEntryJSON_def Storage_Put_def split: sum.splits option.splits)
  have later: "Org (c5 c3) = Org c1" "Token (c5 c3) = Token c2" "BaseURL (c5 c3) = BaseURL c3"
    "TTL (c5 c3) = TTL (c4 c3)"
    using s3 by (auto simp add: c5_def c4_def step3_def c2_def split: option.splits if_splits)
  have earlier: "BaseURL c2 = BaseURL old" "Token c1 = Token old"
    by (auto simp add: c2_def c1_def split: option.splits)
  show ?thesis
    apply (rule exI[of _ "c5 c3"], rule exI[of _ bs])
    apply (simp only: enc s' later)
    using s3 earlier
    apply (auto simp add: c5_def c4_def step3_def c2_def c1_def split: option.splits if_splits)
    done
qed

theorem pathConfigWrite_merges_by_operation_witness:
  "pathConfigWrite example_library
      (request UpdateOperation (store_of [''config'' \<mapsto> ''acme t0 https://acme.example'']))
      (fields_of [''token'' \<mapsto> ''t1''])
     = ((None, None), store_of [''config'' \<mapsto> ''acme t1 https://acme.example''])
   \<and> (\<exists>cfg bs. encodeConfigEntry example_library cfg = Inr bs
         \<and> Org cfg = ''acme'' \<and> Token cfg = ''t1'' \<and> BaseURL cfg = ''https://acme.example''
         \<and> TTL cfg = seconds 60 \<and> MaxTTL cfg = seconds 120)
   \<and> pathConfigWrite example_library
      (request CreateOperation (store_of Map.empty))
      (fields_of [''organization'' \<mapsto> ''acme''])
     = ((None, None), store_of [''config'' \<mapsto> ''acme  ''])
   \<and> (\<exists>cfg bs. encodeConfigEntry example_library cfg = Inr bs
         \<and> Org cfg = ''acme'' \<and> Token cfg = [] \<and> BaseURL cfg = []
         \<and> TTL cfg = seconds 0 \<and> MaxTTL cfg = seconds 0)"
proof -
  let ?u = "request UpdateOperation (store_of [''config'' \<mapsto> ''acme t0 https://acme.example''])"
  let ?c = "request CreateOperation (store_of Map.empty)"
  have ru: "Config example_library (Storage ?u) = (Some example_entry, None)"
    by (simp add: Config_def Storage_Get_def okta_examples)
  have rc: "Config example_library (Storage ?c) = (None, None)"
    by (simp add: Config_def Storage_Get_def okta_examples)
  have ou: "example_entry = (case Some example_entry of None \<Rightarrow> ConfigEntry_zero | Some c \<Rightarrow> c)"
    by simp
  have oc: "ConfigEntry_zero = (case None of None \<Rightarrow> ConfigEntry_zero | Some c \<Rightarrow> c)"
    by simp
  have wu: "pathConfigWrite example_library ?u (fields_of [''token'' \<mapsto> ''t1''])
     = ((None, None), store_of [''config'' \<mapsto> ''acme t1 https://acme.example''])"
    by (simp add: pathConfigWrite_def Config_def Storage_Get_def Storage_Put_def
        StorageEntryJSON_def Let_def okta_examples)
  have wc: "pathConfigWrite example_library ?c (fields_of [''organization'' \<mapsto> ''acme''])
     = ((None, None), store_of [''config'' \<mapsto> ''acme  ''])"
    by (simp add: pathConfigWrite_def Config_def Storage_Get_def Storage_Put_def
        StorageEntryJSON_def Let_def ConfigEntry_zero_def okta_examples)
  from pathConfigWrite_merges_by_operation [OF ru ou wu]
  have eu: "\<exists>cfg bs. encodeConfigEntry example_library cfg = Inr bs
         \<and> Org cfg = ''acme'' \<and> Token cfg = ''t1'' \<and> BaseURL cfg = ''https://acme.example''
         \<and> TTL cfg = seconds 60 \<and> MaxTTL cfg = seconds 120"
    by (auto simp add: okta_examples)
  from pathConfigWrite_merges_by_operation [OF rc oc wc]
  have ec: "\<exists>cfg bs. encodeConfigEntry example_library cfg = Inr bs
         \<and> Org cfg = ''acme'' \<and> Token cfg = [] \<and> BaseURL cfg = []
         \<and> TTL cfg = seconds 0 \<and> MaxTTL cfg = seconds 0"
    by (auto simp add: okta_examples ConfigEntry_zero_def)
  from wu eu wc ec show ?thesis
    by (intro conjI)
qed

end
